theory Spec2Isabelle
  imports Main
begin

section \<open>JavaScript values and the string primitives the adapter uses\<close>

text \<open>
  The adapter (\<^verbatim>\<open>src/services/database.ts\<close>) moves values of the backend drivers
  around without looking at their static types, so the model has one type of run-time
  values. \<open>undefined\<close> is not a constructor: it only arises from reading a property an
  object does not have, and is the \<open>None\<close> of a \<open>js_value option\<close>.
  A number \<open>JNumber n\<close> stands for the engine's number \<open>n\<close> when \<open>n\<close> is a safe integer
  (at most \<open>2^53 - 1\<close> in magnitude, \<open>Number.MAX_SAFE_INTEGER\<close>): these are the integers
  the engine holds exactly and prints as their decimal digits. Every other number (a
  non-integral one, a larger one, which the engine rounds and from \<open>10^21\<close> on prints
  with an exponent) is outside the model, and the statements about printed values assume
  \<open>engine_value\<close>. Strings are \<open>string\<close>; an object is the list of its own properties
  in \<open>Object.keys\<close> order.
\<close>

datatype js_value =
    JNull
  | JBool bool
  | JNumber int
  | JString string
  | JArray "js_value list"
  | JObject "(string \<times> js_value) list"

type_synonym row = "(string \<times> js_value) list"

text \<open>\<open>row[col]\<close> and \<open>Object.keys(row)\<close>.\<close>

definition get_prop :: "row \<Rightarrow> string \<Rightarrow> js_value option" where
  "get_prop r k = map_of r k"

definition object_keys :: "row \<Rightarrow> string list" where
  "object_keys r = map fst r"

text \<open>Decimal rendering of an integer, as \<open>String(n)\<close> gives it.\<close>

definition digit_char :: "nat \<Rightarrow> char" where
  "digit_char d = char_of (48 + d)"

fun nat_to_string :: "nat \<Rightarrow> string" where
  "nat_to_string n =
     (if n < 10 then [digit_char n] else nat_to_string (n div 10) @ [digit_char (n mod 10)])"

declare nat_to_string.simps [simp del]

definition int_to_string :: "int \<Rightarrow> string" where
  "int_to_string i =
     (if i < 0 then CHR ''-'' # nat_to_string (nat (- i)) else nat_to_string (nat i))"

text \<open>\<open>xs.join(sep)\<close> on strings already converted.\<close>

fun join_strings :: "string \<Rightarrow> string list \<Rightarrow> string" where
  "join_strings sep [] = []"
| "join_strings sep [x] = x"
| "join_strings sep (x # y # ys) = x @ sep @ join_strings sep (y # ys)"



text \<open>
  \<open>String(v)\<close>: the default textual representation, for an \<open>engine_value\<close>. A safe
  integer is its decimal digits. An array is its elements joined by a comma, with \<open>null\<close>
  rendered as the empty string; a plain object is \<open>[object Object]\<close>.
\<close>

fun js_string :: "js_value \<Rightarrow> string" where
  "js_string JNull = ''null''"
| "js_string (JBool b) = (if b then ''true'' else ''false'')"
| "js_string (JNumber n) = int_to_string n"
| "js_string (JString s) = s"
| "js_string (JArray xs) =
     join_strings '','' (map (\<lambda>x. if x = JNull then [] else js_string x) xs)"
| "js_string (JObject ps) = ''[object Object]''"

text \<open>The conversion a template literal \<open>`${v}`\<close> applies.\<close>

definition to_string :: "js_value option \<Rightarrow> string" where
  "to_string v = (case v of None \<Rightarrow> ''undefined'' | Some x \<Rightarrow> js_string x)"

text \<open>
  The conversion \<open>Array.prototype.join\<close> applies to an element: \<open>undefined\<close> and \<open>null\<close>
  become the empty string, everything else goes through \<open>String\<close>.
\<close>

definition join_element :: "js_value option \<Rightarrow> string" where
  "join_element v =
     (case v of None \<Rightarrow> [] | Some x \<Rightarrow> if x = JNull then [] else js_string x)"

definition js_join :: "string \<Rightarrow> js_value option list \<Rightarrow> string" where
  "js_join sep vs = join_strings sep (map join_element vs)"

text \<open>\<open>s.replace(/'/g, "''")\<close>: every single quote is doubled.\<close>

definition quote_char :: char where
  "quote_char = CHR 0x27"

fun replace_quotes :: "string \<Rightarrow> string" where
  "replace_quotes [] = []"
| "replace_quotes (c # cs) =
     (if c = quote_char then quote_char # quote_char # replace_quotes cs
      else c # replace_quotes cs)"

text \<open>Truthiness, for \<open>x || ''\<close>.\<close>

fun truthy :: "js_value \<Rightarrow> bool" where
  "truthy JNull = False"
| "truthy (JBool b) = b"
| "truthy (JNumber n) = (n \<noteq> 0)"
| "truthy (JString s) = (s \<noteq> [])"
| "truthy (JArray xs) = True"
| "truthy (JObject ps) = True"

definition or_empty :: "js_value option \<Rightarrow> js_value" where
  "or_empty v =
     (case v of None \<Rightarrow> JString [] | Some x \<Rightarrow> if truthy x then x else JString [])"

section \<open>Errors, configuration, handles and the backend drivers\<close>

text \<open>
  Every way an operation can reject: a \<open>TypeError\<close> is what the engine raises when a
  method is read from \<open>undefined\<close> (the null-reference fault of an absent handle),
  \<open>Error\<close> is a \<open>new Error(msg)\<close> thrown by the adapter itself, \<open>DriverError\<close> is a
  rejection coming from a driver, \<open>SyntaxError\<close> comes from \<open>JSON.parse\<close>.
\<close>

datatype js_error =
    TypeError string
  | Error string
  | DriverError string
  | SyntaxError string

definition undefined_read :: "string \<Rightarrow> js_error" where
  "undefined_read m =
     TypeError (''Cannot read properties of undefined (reading '' @ [quote_char] @ m @ [quote_char] @ '')'')"

record connection_config =
  host :: "string option"
  port :: "int option"
  database :: "string option"
  user :: "string option"
  password :: "string option"
  projectId :: "string option"
  keyFilename :: "string option"

text \<open>
  The three handles. A handle is the client object the driver built from the connection
  parameters. \<open>config_type\<close> is the run-time string the \<open>switch\<close> statements compare:
  the declared type \<open>DatabaseType\<close> allows three values, the engine any string.
\<close>

datatype pg_client = PgClient connection_config
datatype mysql_connection = MysqlConnection connection_config
datatype firestore_client = FirestoreClient connection_config

record database_service =
  config_type :: string
  config_connection :: connection_config
  postgresClient :: "pg_client option"
  mysqlConnection :: "mysql_connection option"
  firestoreClient :: "firestore_client option"

text \<open>The constructor stores the configuration and creates no handle.\<close>

definition new_service :: "string \<Rightarrow> connection_config \<Rightarrow> database_service" where
  "new_service t c =
     \<lparr>config_type = t, config_connection = c, postgresClient = None,
      mysqlConnection = None, firestoreClient = None\<rparr>"

text \<open>
  The drivers are outside the repository: each awaited driver call is answered by a
  function of this record (\<open>Inl msg\<close> or \<open>Some msg\<close> is a rejection with that message).
  Building a \<open>pg.Client\<close> or a \<open>Firestore\<close> object performs no call.
\<close>

record driver =
  pg_connect :: "pg_client \<Rightarrow> string option"
  pg_query :: "pg_client \<Rightarrow> string \<Rightarrow> js_value list \<Rightarrow> string + row list"
  pg_end :: "pg_client \<Rightarrow> string option"
  mysql_createConnection :: "connection_config \<Rightarrow> string + mysql_connection"
  mysql_query :: "mysql_connection \<Rightarrow> string \<Rightarrow> js_value list \<Rightarrow> string + row list"
  mysql_end :: "mysql_connection \<Rightarrow> string option"
  firestore_listCollections :: "firestore_client \<Rightarrow> string + string list"

text \<open>What an operation asked of a driver, in order.\<close>

datatype backend_call =
    PgConnect
  | PgQuery string "js_value list"
  | PgEnd
  | MysqlCreateConnection
  | MysqlQuery string "js_value list"
  | MysqlEnd
  | FirestoreListCollections

record table_info =
  name :: "js_value option"
  columns :: "js_value option"

subsection \<open>The query texts (runs of white space written as one space)\<close>

definition pg_tables_query :: string where
  "pg_tables_query =
     ''SELECT table_name, json_agg(json_build_object( 'name', column_name, 'type', data_type, 'nullable', is_nullable = 'YES' )) as columns FROM information_schema.columns WHERE table_schema = 'public' GROUP BY table_name;''"

definition mysql_tables_query :: string where
  "mysql_tables_query =
     ''SELECT TABLE_NAME as tableName, GROUP_CONCAT( JSON_OBJECT( 'name', COLUMN_NAME, 'type', DATA_TYPE, 'nullable', IS_NULLABLE = 'YES' ) ) as columns FROM information_schema.columns WHERE table_schema = DATABASE() GROUP BY TABLE_NAME;''"

definition pg_triggers_query :: string where
  "pg_triggers_query =
     ''SELECT trigger_name as name, event_object_table as table, event_manipulation as event, action_timing as timing, action_statement as statement FROM information_schema.triggers WHERE trigger_schema = 'public';''"

definition mysql_triggers_query :: string where
  "mysql_triggers_query =
     ''SELECT TRIGGER_NAME as name, EVENT_OBJECT_TABLE as '' @ [CHR 0x60] @ ''table'' @ [CHR 0x60]
     @ '', EVENT_MANIPULATION as event, ACTION_TIMING as timing, ACTION_STATEMENT as statement FROM information_schema.TRIGGERS WHERE TRIGGER_SCHEMA = DATABASE();''"

definition pg_functions_query :: string where
  "pg_functions_query =
     ''SELECT p.proname as name, l.lanname as language, pg_get_function_result(p.oid) as ''
     @ [CHR 0x22] @ ''returnType'' @ [CHR 0x22]
     @ '', pg_get_function_arguments(p.oid) as arguments, pg_get_functiondef(p.oid) as definition FROM pg_proc p JOIN pg_namespace n ON p.pronamespace = n.oid JOIN pg_language l ON p.prolang = l.oid WHERE n.nspname = 'public';''"

definition mysql_functions_query :: string where
  "mysql_functions_query =
     ''SELECT ROUTINE_NAME as name, 'SQL' as language, DTD_IDENTIFIER as returnType, CONCAT_WS(', ', GROUP_CONCAT( CONCAT(PARAMETER_NAME, ' ', DATA_TYPE) ORDER BY ORDINAL_POSITION ) ) as arguments, ROUTINE_DEFINITION as definition FROM information_schema.ROUTINES r LEFT JOIN information_schema.PARAMETERS p ON r.SPECIFIC_NAME = p.SPECIFIC_NAME WHERE r.ROUTINE_SCHEMA = DATABASE() AND r.ROUTINE_TYPE = 'FUNCTION' GROUP BY r.SPECIFIC_NAME;''"

definition pg_schema_query :: string where
  "pg_schema_query =
     ''SELECT 'CREATE TABLE ' || quote_ident($1) || ' (' || string_agg( quote_ident(column_name) || ' ' || data_type || CASE WHEN character_maximum_length IS NOT NULL THEN '(' || character_maximum_length || ')' ELSE ''
     @ [quote_char, quote_char]
     @ '' END || CASE WHEN is_nullable = 'NO' THEN ' NOT NULL' ELSE ''
     @ [quote_char, quote_char]
     @ '' END, ', ' ) || ');' as create_table_sql FROM information_schema.columns WHERE table_name = $1 AND table_schema = 'public' GROUP BY table_name;''"

definition mysql_schema_query :: string where
  "mysql_schema_query = ''SHOW CREATE TABLE ??''"

definition pg_data_query :: "string \<Rightarrow> string" where
  "pg_data_query tableName = ''SELECT * FROM '' @ tableName @ '';''"

definition mysql_data_query :: string where
  "mysql_data_query = ''SELECT * FROM ??''"

section \<open>\<open>JSON.parse\<close>\<close>

text \<open>
  \<open>JSON.parse\<close> is a primitive of the engine; the relational-B branch of \<open>getTables\<close>
  calls it on text the backend produced. It is modelled as a recursive-descent reader of
  the JSON grammar. The reader takes fuel (one unit per nesting step), and \<open>json_parse\<close>
  gives it more than the length of the text. Within the limits of the value type: a number
  with a fraction or an exponent, and a \<open>\u\<close> escape above \<open>00ff\<close>, are outside the
  model and are rejected; a repeated key keeps its first position and its last value.
\<close>

definition is_ws :: "char \<Rightarrow> bool" where
  "is_ws c = (c = CHR '' '' \<or> c = CHR 0x09 \<or> c = CHR 0x0A \<or> c = CHR 0x0D)"

fun skip_ws :: "string \<Rightarrow> string" where
  "skip_ws [] = []"
| "skip_ws (c # cs) = (if is_ws c then skip_ws cs else c # cs)"

definition escape_char :: "char \<Rightarrow> char option" where
  "escape_char e =
     (if e = CHR 0x22 then Some (CHR 0x22)
      else if e = CHR 0x5C then Some (CHR 0x5C)
      else if e = CHR ''/'' then Some (CHR ''/'')
      else if e = CHR ''b'' then Some (CHR 0x08)
      else if e = CHR ''f'' then Some (CHR 0x0C)
      else if e = CHR ''n'' then Some (CHR 0x0A)
      else if e = CHR ''r'' then Some (CHR 0x0D)
      else if e = CHR ''t'' then Some (CHR 0x09)
      else None)"

definition hex_digit :: "char \<Rightarrow> nat option" where
  "hex_digit c =
     (let n = of_char c :: nat in
      if 48 \<le> n \<and> n \<le> 57 then Some (n - 48)
      else if 65 \<le> n \<and> n \<le> 70 then Some (n - 55)
      else if 97 \<le> n \<and> n \<le> 102 then Some (n - 87)
      else None)"

definition hex4 :: "char \<Rightarrow> char \<Rightarrow> char \<Rightarrow> char \<Rightarrow> char option" where
  "hex4 a b c d =
     (case (hex_digit a, hex_digit b, hex_digit c, hex_digit d) of
        (Some 0, Some 0, Some x, Some y) \<Rightarrow> Some (char_of (16 * x + y))
      | _ \<Rightarrow> None)"

definition cons_result :: "char \<Rightarrow> (string \<times> string) option \<Rightarrow> (string \<times> string) option" where
  "cons_result c r = (case r of None \<Rightarrow> None | Some (s, rest) \<Rightarrow> Some (c # s, rest))"

fun parse_chars :: "string \<Rightarrow> (string \<times> string) option" where
  "parse_chars [] = None"
| "parse_chars (c # cs) =
     (if c = CHR 0x22 then Some ([], cs)
      else if c = CHR 0x5C then
        (case cs of
           [] \<Rightarrow> None
         | e # r \<Rightarrow>
             if e = CHR ''u'' then
               (case r of
                  a # b # x # y # r' \<Rightarrow>
                    (case hex4 a b x y of
                       None \<Rightarrow> None
                     | Some ch \<Rightarrow> cons_result ch (parse_chars r'))
                | _ \<Rightarrow> None)
             else
               (case escape_char e of
                  None \<Rightarrow> None
                | Some ch \<Rightarrow> cons_result ch (parse_chars r)))
      else if (of_char c :: nat) < 32 then None
      else cons_result c (parse_chars cs))"


definition is_digit :: "char \<Rightarrow> bool" where
  "is_digit c = (48 \<le> (of_char c :: nat) \<and> (of_char c :: nat) \<le> 57)"

definition digit_val :: "char \<Rightarrow> nat" where
  "digit_val c = of_char c - 48"

fun parse_digits :: "nat \<Rightarrow> string \<Rightarrow> nat \<times> string" where
  "parse_digits acc [] = (acc, [])"
| "parse_digits acc (c # cs) =
     (if is_digit c then parse_digits (10 * acc + digit_val c) cs else (acc, c # cs))"

definition parse_nat :: "string \<Rightarrow> (nat \<times> string) option" where
  "parse_nat s =
     (case s of
        [] \<Rightarrow> None
      | c # cs \<Rightarrow>
          if c = CHR ''0'' then Some (0, cs)
          else if is_digit c then Some (parse_digits (digit_val c) cs)
          else None)"

definition fraction_start :: "string \<Rightarrow> bool" where
  "fraction_start s =
     (case s of [] \<Rightarrow> False | c # cs \<Rightarrow> c = CHR ''.'' \<or> c = CHR ''e'' \<or> c = CHR ''E'')"

definition parse_number :: "string \<Rightarrow> (js_value \<times> string) option" where
  "parse_number s =
     (case s of
        [] \<Rightarrow> None
      | c # cs \<Rightarrow>
          (case (if c = CHR ''-'' then parse_nat cs else parse_nat s) of
             None \<Rightarrow> None
           | Some (n, r) \<Rightarrow>
               if fraction_start r then None
               else Some (JNumber (if c = CHR ''-'' then - int n else int n), r)))"

definition parse_literal :: "string \<Rightarrow> (js_value \<times> string) option" where
  "parse_literal s =
     (if take 4 s = ''true'' then Some (JBool True, drop 4 s)
      else if take 5 s = ''false'' then Some (JBool False, drop 5 s)
      else if take 4 s = ''null'' then Some (JNull, drop 4 s)
      else None)"

fun set_prop :: "(string \<times> js_value) list \<Rightarrow> string \<Rightarrow> js_value \<Rightarrow> (string \<times> js_value) list" where
  "set_prop [] k v = [(k, v)]"
| "set_prop ((k', v') # ps) k v =
     (if k' = k then (k', v) # ps else (k', v') # set_prop ps k v)"

definition make_object :: "(string \<times> js_value) list \<Rightarrow> (string \<times> js_value) list" where
  "make_object ps = foldl (\<lambda>obj (k, v). set_prop obj k v) [] ps"

fun parse_value :: "nat \<Rightarrow> string \<Rightarrow> (js_value \<times> string) option"
  and parse_elements :: "nat \<Rightarrow> string \<Rightarrow> (js_value list \<times> string) option"
  and parse_members :: "nat \<Rightarrow> string \<Rightarrow> ((string \<times> js_value) list \<times> string) option"
where
  "parse_value 0 s = None"
| "parse_value (Suc n) s =
     (case skip_ws s of
        [] \<Rightarrow> None
      | c # cs \<Rightarrow>
          if c = CHR ''['' then
            (case skip_ws cs of
               [] \<Rightarrow> None
             | d # ds \<Rightarrow>
                 if d = CHR '']'' then Some (JArray [], ds)
                 else (case parse_elements n cs of
                         None \<Rightarrow> None
                       | Some (vs, r) \<Rightarrow> Some (JArray vs, r)))
          else if c = CHR ''{'' then
            (case skip_ws cs of
               [] \<Rightarrow> None
             | d # ds \<Rightarrow>
                 if d = CHR ''}'' then Some (JObject [], ds)
                 else (case parse_members n cs of
                         None \<Rightarrow> None
                       | Some (ps, r) \<Rightarrow> Some (JObject (make_object ps), r)))
          else if c = CHR 0x22 then
            (case parse_chars cs of
               None \<Rightarrow> None
             | Some (str, r) \<Rightarrow> Some (JString str, r))
          else if c = CHR ''-'' \<or> is_digit c then parse_number (c # cs)
          else parse_literal (c # cs))"
| "parse_elements 0 s = None"
| "parse_elements (Suc n) s =
     (case parse_value n s of
        None \<Rightarrow> None
      | Some (v, r) \<Rightarrow>
          (case skip_ws r of
             [] \<Rightarrow> None
           | c # cs \<Rightarrow>
               if c = CHR '','' then
                 (case parse_elements n cs of
                    None \<Rightarrow> None
                  | Some (vs, r') \<Rightarrow> Some (v # vs, r'))
               else if c = CHR '']'' then Some ([v], cs)
               else None))"
| "parse_members 0 s = None"
| "parse_members (Suc n) s =
     (case skip_ws s of
        [] \<Rightarrow> None
      | q # ks \<Rightarrow>
          if q \<noteq> CHR 0x22 then None
          else
            (case parse_chars ks of
               None \<Rightarrow> None
             | Some (k, r1) \<Rightarrow>
                 (case skip_ws r1 of
                    [] \<Rightarrow> None
                  | colon # r2 \<Rightarrow>
                      if colon \<noteq> CHR '':'' then None
                      else
                        (case parse_value n r2 of
                           None \<Rightarrow> None
                         | Some (v, r3) \<Rightarrow>
                             (case skip_ws r3 of
                                [] \<Rightarrow> None
                              | c # cs \<Rightarrow>
                                  if c = CHR '','' then
                                    (case parse_members n cs of
                                       None \<Rightarrow> None
                                     | Some (ps, r') \<Rightarrow> Some ((k, v) # ps, r'))
                                  else if c = CHR ''}'' then Some ([(k, v)], cs)
                                  else None)))))"

definition json_parse :: "string \<Rightarrow> js_error + js_value" where
  "json_parse s =
     (case parse_value (Suc (length s)) s of
        None \<Rightarrow> Inl (SyntaxError ''Unexpected token in JSON'')
      | Some (v, r) \<Rightarrow>
          if skip_ws r = [] then Inr v else Inl (SyntaxError ''Unexpected token in JSON''))"

section \<open>The adapter: \<open>DatabaseService\<close>\<close>

text \<open>
  An operation returns the driver calls it made together with its outcome: \<open>Inl e\<close> is
  the rejected promise, \<open>Inr v\<close> the resolved one. \<open>connect\<close> and \<open>disconnect\<close> also
  return the adapter, since \<open>connect\<close> assigns a handle.
\<close>

text \<open>\<open>xs.map(f)\<close> where \<open>f\<close> may throw: the first throw ends the whole map.\<close>

fun map_result :: "('a \<Rightarrow> js_error + 'b) \<Rightarrow> 'a list \<Rightarrow> js_error + 'b list" where
  "map_result f [] = Inr []"
| "map_result f (x # xs) =
     (case f x of
        Inl e \<Rightarrow> Inl e
      | Inr y \<Rightarrow> (case map_result f xs of Inl e \<Rightarrow> Inl e | Inr ys \<Rightarrow> Inr (y # ys)))"

definition connect ::
  "driver \<Rightarrow> database_service \<Rightarrow> backend_call list \<times> database_service \<times> (js_error + unit)" where
  "connect d s =
     (if config_type s = ''postgres'' then
        (let c = PgClient (config_connection s); s' = s\<lparr>postgresClient := Some c\<rparr> in
         case pg_connect d c of
           Some msg \<Rightarrow> ([PgConnect], s', Inl (DriverError msg))
         | None \<Rightarrow> ([PgConnect], s', Inr ()))
      else if config_type s = ''mysql'' then
        (case mysql_createConnection d (config_connection s) of
           Inl msg \<Rightarrow> ([MysqlCreateConnection], s, Inl (DriverError msg))
         | Inr c \<Rightarrow> ([MysqlCreateConnection], s\<lparr>mysqlConnection := Some c\<rparr>, Inr ()))
      else if config_type s = ''firestore'' then
        ([], s\<lparr>firestoreClient := Some (FirestoreClient (config_connection s))\<rparr>, Inr ())
      else ([], s, Inr ()))"

text \<open>
  A query through \<open>this.postgresClient!\<close> or \<open>this.mysqlConnection!\<close>: the assertion
  \<open>!\<close> is erased by the compiler, so an absent handle is a \<open>TypeError\<close> when \<open>query\<close> is
  read from it.
\<close>

definition pg_query_unchecked ::
  "driver \<Rightarrow> database_service \<Rightarrow> string \<Rightarrow> backend_call list \<times> (js_error + row list)" where
  "pg_query_unchecked d s q =
     (case postgresClient s of
        None \<Rightarrow> ([], Inl (undefined_read ''query''))
      | Some c \<Rightarrow>
          (case pg_query d c q [] of
             Inl msg \<Rightarrow> ([PgQuery q []], Inl (DriverError msg))
           | Inr rows \<Rightarrow> ([PgQuery q []], Inr rows)))"

definition mysql_query_unchecked ::
  "driver \<Rightarrow> database_service \<Rightarrow> string \<Rightarrow> backend_call list \<times> (js_error + row list)" where
  "mysql_query_unchecked d s q =
     (case mysqlConnection s of
        None \<Rightarrow> ([], Inl (undefined_read ''query''))
      | Some c \<Rightarrow>
          (case mysql_query d c q [] of
             Inl msg \<Rightarrow> ([MysqlQuery q []], Inl (DriverError msg))
           | Inr rows \<Rightarrow> ([MysqlQuery q []], Inr rows)))"

text \<open>
  A query behind the explicit guard \<open>if (!this.postgresClient) throw new Error(...)\<close>.
\<close>

definition pg_query_guarded ::
  "driver \<Rightarrow> database_service \<Rightarrow> string \<Rightarrow> js_value list
     \<Rightarrow> backend_call list \<times> (js_error + row list)" where
  "pg_query_guarded d s q params =
     (case postgresClient s of
        None \<Rightarrow> ([], Inl (Error ''PostgreSQL connection not found''))
      | Some c \<Rightarrow>
          (case pg_query d c q params of
             Inl msg \<Rightarrow> ([PgQuery q params], Inl (DriverError msg))
           | Inr rows \<Rightarrow> ([PgQuery q params], Inr rows)))"

definition mysql_query_guarded ::
  "driver \<Rightarrow> database_service \<Rightarrow> string \<Rightarrow> js_value list
     \<Rightarrow> backend_call list \<times> (js_error + row list)" where
  "mysql_query_guarded d s q params =
     (case mysqlConnection s of
        None \<Rightarrow> ([], Inl (Error ''MySQL connection not found''))
      | Some c \<Rightarrow>
          (case mysql_query d c q params of
             Inl msg \<Rightarrow> ([MysqlQuery q params], Inl (DriverError msg))
           | Inr rows \<Rightarrow> ([MysqlQuery q params], Inr rows)))"

definition pg_table :: "row \<Rightarrow> table_info" where
  "pg_table r = \<lparr>name = get_prop r ''table_name'', columns = get_prop r ''columns''\<rparr>"

definition mysql_table :: "row \<Rightarrow> js_error + table_info" where
  "mysql_table r =
     (case json_parse (''['' @ to_string (get_prop r ''columns'') @ '']'') of
        Inl e \<Rightarrow> Inl e
      | Inr v \<Rightarrow> Inr \<lparr>name = get_prop r ''tableName'', columns = Some v\<rparr>)"

definition firestore_table :: "string \<Rightarrow> table_info" where
  "firestore_table collection_id =
     \<lparr>name = Some (JString collection_id), columns = Some (JArray [])\<rparr>"

definition getTables ::
  "driver \<Rightarrow> database_service \<Rightarrow> backend_call list \<times> (js_error + table_info list)" where
  "getTables d s =
     (if config_type s = ''postgres'' then
        (case pg_query_unchecked d s pg_tables_query of
           (calls, Inl e) \<Rightarrow> (calls, Inl e)
         | (calls, Inr rows) \<Rightarrow> (calls, Inr (map pg_table rows)))
      else if config_type s = ''mysql'' then
        (case mysql_query_unchecked d s mysql_tables_query of
           (calls, Inl e) \<Rightarrow> (calls, Inl e)
         | (calls, Inr rows) \<Rightarrow> (calls, map_result mysql_table rows))
      else if config_type s = ''firestore'' then
        (case firestoreClient s of
           None \<Rightarrow> ([], Inl (undefined_read ''listCollections''))
         | Some c \<Rightarrow>
             (case firestore_listCollections d c of
                Inl msg \<Rightarrow> ([FirestoreListCollections], Inl (DriverError msg))
              | Inr ids \<Rightarrow> ([FirestoreListCollections], Inr (map firestore_table ids))))
      else ([], Inr []))"

definition getTriggers ::
  "driver \<Rightarrow> database_service \<Rightarrow> backend_call list \<times> (js_error + row list)" where
  "getTriggers d s =
     (if config_type s = ''postgres'' then pg_query_unchecked d s pg_triggers_query
      else if config_type s = ''mysql'' then mysql_query_unchecked d s mysql_triggers_query
      else if config_type s = ''firestore'' then ([], Inr [])
      else ([], Inr []))"

definition getFunctions ::
  "driver \<Rightarrow> database_service \<Rightarrow> backend_call list \<times> (js_error + row list)" where
  "getFunctions d s =
     (if config_type s = ''postgres'' then pg_query_unchecked d s pg_functions_query
      else if config_type s = ''mysql'' then mysql_query_unchecked d s mysql_functions_query
      else if config_type s = ''firestore'' then ([], Inr [])
      else ([], Inr []))"

definition executeQuery ::
  "driver \<Rightarrow> database_service \<Rightarrow> string \<Rightarrow> backend_call list \<times> (js_error + row list)" where
  "executeQuery d s query =
     (if config_type s = ''postgres'' then pg_query_guarded d s query []
      else if config_type s = ''mysql'' then mysql_query_guarded d s query []
      else if config_type s = ''firestore'' then
        ([], Inl (Error ''SQL queries are not supported for Firestore''))
      else ([], Inl (Error ''Unsupported database type'')))"

definition disconnect ::
  "driver \<Rightarrow> database_service \<Rightarrow> backend_call list \<times> database_service \<times> (js_error + unit)" where
  "disconnect d s =
     (if config_type s = ''postgres'' then
        (case postgresClient s of
           None \<Rightarrow> ([], s, Inr ())
         | Some c \<Rightarrow>
             (case pg_end d c of
                Some msg \<Rightarrow> ([PgEnd], s, Inl (DriverError msg))
              | None \<Rightarrow> ([PgEnd], s, Inr ())))
      else if config_type s = ''mysql'' then
        (case mysqlConnection s of
           None \<Rightarrow> ([], s, Inr ())
         | Some c \<Rightarrow>
             (case mysql_end d c of
                Some msg \<Rightarrow> ([MysqlEnd], s, Inl (DriverError msg))
              | None \<Rightarrow> ([MysqlEnd], s, Inr ())))
      else ([], s, Inr ()))"

text \<open>\<open>rows[0]?.[field] || ''\<close>.\<close>

definition first_field_or_empty :: "row list \<Rightarrow> string \<Rightarrow> js_value" where
  "first_field_or_empty rows field =
     (case rows of [] \<Rightarrow> JString [] | r # rest \<Rightarrow> or_empty (get_prop r field))"

definition exportTableSchema ::
  "driver \<Rightarrow> database_service \<Rightarrow> string \<Rightarrow> backend_call list \<times> (js_error + js_value)" where
  "exportTableSchema d s tableName =
     (if config_type s = ''postgres'' then
        (case pg_query_guarded d s pg_schema_query [JString tableName] of
           (calls, Inl e) \<Rightarrow> (calls, Inl e)
         | (calls, Inr rows) \<Rightarrow> (calls, Inr (first_field_or_empty rows ''create_table_sql'')))
      else if config_type s = ''mysql'' then
        (case mysql_query_guarded d s mysql_schema_query [JString tableName] of
           (calls, Inl e) \<Rightarrow> (calls, Inl e)
         | (calls, Inr rows) \<Rightarrow> (calls, Inr (first_field_or_empty rows ''Create Table'')))
      else if config_type s = ''firestore'' then
        ([], Inl (Error ''SQL schema export is not supported for Firestore''))
      else ([], Inl (Error ''Unsupported database type'')))"

text \<open>
  The callback of \<open>columns.map\<close> in \<open>exportTableData\<close>: \<open>null\<close> becomes the string
  \<open>NULL\<close>, a string is quoted, anything else (\<open>undefined\<close> included) is returned as it
  is and converted by the \<open>join\<close> that follows.
\<close>

definition export_value :: "js_value option \<Rightarrow> js_value option" where
  "export_value val =
     (case val of
        Some JNull \<Rightarrow> Some (JString ''NULL'')
      | Some (JString str) \<Rightarrow> Some (JString ([quote_char] @ replace_quotes str @ [quote_char]))
      | other \<Rightarrow> other)"

definition insert_statement :: "string \<Rightarrow> string list \<Rightarrow> row \<Rightarrow> string" where
  "insert_statement tableName cols r =
     ''INSERT INTO '' @ tableName @ '' ('' @ join_strings '', '' cols @ '') VALUES (''
       @ js_join '', '' (map (\<lambda>col. export_value (get_prop r col)) cols) @ '');''"

definition insert_statements :: "string \<Rightarrow> row list \<Rightarrow> string" where
  "insert_statements tableName rows =
     (case rows of
        [] \<Rightarrow> []
      | first # rest \<Rightarrow>
          join_strings [CHR 0x0A] (map (insert_statement tableName (object_keys first)) rows))"

definition exportTableData ::
  "driver \<Rightarrow> database_service \<Rightarrow> string \<Rightarrow> backend_call list \<times> (js_error + string)" where
  "exportTableData d s tableName =
     (if config_type s = ''postgres'' then
        (case pg_query_guarded d s (pg_data_query tableName) [] of
           (calls, Inl e) \<Rightarrow> (calls, Inl e)
         | (calls, Inr rows) \<Rightarrow> (calls, Inr (insert_statements tableName rows)))
      else if config_type s = ''mysql'' then
        (case mysql_query_guarded d s mysql_data_query [JString tableName] of
           (calls, Inl e) \<Rightarrow> (calls, Inl e)
         | (calls, Inr rows) \<Rightarrow> (calls, Inr (insert_statements tableName rows)))
      else if config_type s = ''firestore'' then
        ([], Inl (Error ''SQL data export is not supported for Firestore''))
      else ([], Inl (Error ''Unsupported database type'')))"

section \<open>The export format, in the words of the specification\<close>







text \<open>
  One row of a table \<open>notes\<close> whose first column is named \<open>order\<close> and whose second
  column holds the two-character string made of \<open>a\<close> and a backslash.
\<close>

definition notes_rows :: "row list" where
  "notes_rows = [[(''order'', JNumber 1), (''body'', JString [CHR ''a'', CHR 0x5C])]]"

section \<open>Equivalent column catalogues of the two relational backends\<close>

text \<open>
  The specification asks that the two relational paths of \<open>getTables\<close> agree on
  equivalent data. A catalogue lists the tables; per table its name and its columns, each
  column as the pair of the JSON text fragment that relational-B concatenates and the
  value that relational-A aggregates natively. It is well formed when every fragment
  denotes its value. The answer of relational-A to the catalogue query holds the array of
  the values; the answer of relational-B holds the fragments joined by commas.
\<close>

type_synonym catalog = "(js_value \<times> (string \<times> js_value) list) list"

definition well_formed_catalog :: "catalog \<Rightarrow> bool" where
  "well_formed_catalog cat =
     list_all (\<lambda>(n, cols). list_all (\<lambda>(f, v). json_parse f = Inr v) cols) cat"

definition pg_catalog_rows :: "catalog \<Rightarrow> row list" where
  "pg_catalog_rows cat =
     map (\<lambda>(n, cols). [(''table_name'', n), (''columns'', JArray (map snd cols))]) cat"

definition mysql_catalog_rows :: "catalog \<Rightarrow> row list" where
  "mysql_catalog_rows cat =
     map (\<lambda>(n, cols).
            [(''tableName'', n), (''columns'', JString (join_strings '','' (map fst cols)))]) cat"

definition catalog_tables :: "catalog \<Rightarrow> table_info list" where
  "catalog_tables cat =
     map (\<lambda>(n, cols). \<lparr>name = Some n, columns = Some (JArray (map snd cols))\<rparr>) cat"

text \<open>The end of a JSON value inside a longer text: what may follow a number.\<close>

definition ends_value :: "string \<Rightarrow> bool" where
  "ends_value t =
     (case t of
        [] \<Rightarrow> True
      | c # cs \<Rightarrow> \<not> is_digit c \<and> c \<noteq> CHR ''.'' \<and> c \<noteq> CHR ''e'' \<and> c \<noteq> CHR ''E'')"

section \<open>Concrete configurations and drivers, for the examples\<close>

definition example_config :: connection_config where
  "example_config =
     \<lparr>host = Some ''localhost'', port = None, database = Some ''app'', user = Some ''app'',
      password = Some ''secret'', projectId = None, keyFilename = None\<rparr>"

text \<open>A backend that cannot be reached: every call is rejected.\<close>

definition offline_driver :: driver where
  "offline_driver =
     \<lparr>pg_connect = (\<lambda>c. Some ''ECONNREFUSED''),
      pg_query = (\<lambda>c q ps. Inl ''ECONNREFUSED''),
      pg_end = (\<lambda>c. Some ''ECONNREFUSED''),
      mysql_createConnection = (\<lambda>c. Inl ''ECONNREFUSED''),
      mysql_query = (\<lambda>c q ps. Inl ''ECONNREFUSED''),
      mysql_end = (\<lambda>c. Some ''ECONNREFUSED''),
      firestore_listCollections = (\<lambda>c. Inl ''UNAVAILABLE'')\<rparr>"

text \<open>
  A backend that answers every query with the rows \<open>rows\<close> and lists the collections
  \<open>ids\<close>.
\<close>

definition answering_driver :: "row list \<Rightarrow> string list \<Rightarrow> driver" where
  "answering_driver rows ids =
     \<lparr>pg_connect = (\<lambda>c. None),
      pg_query = (\<lambda>c q ps. Inr rows),
      pg_end = (\<lambda>c. None),
      mysql_createConnection = (\<lambda>c. Inr (MysqlConnection c)),
      mysql_query = (\<lambda>c q ps. Inr rows),
      mysql_end = (\<lambda>c. None),
      firestore_listCollections = (\<lambda>c. Inr ids)\<rparr>"

text \<open>
  A relational-B backend asked for the create statement of a table it does not have: it
  reports an error for the schema query, and answers every other query with no row.
\<close>

definition missing_table_driver :: driver where
  "missing_table_driver =
     \<lparr>pg_connect = (\<lambda>c. None),
      pg_query = (\<lambda>c q ps. Inr []),
      pg_end = (\<lambda>c. None),
      mysql_createConnection = (\<lambda>c. Inr (MysqlConnection c)),
      mysql_query =
        (\<lambda>c q ps. if q = mysql_schema_query then Inl ''ER_NO_SUCH_TABLE'' else Inr []),
      mysql_end = (\<lambda>c. None),
      firestore_listCollections = (\<lambda>c. Inr [])\<rparr>"

text \<open>The adapter of kind \<open>t\<close> after a \<open>connect\<close> that the backend accepted.\<close>

definition connected_service :: "string \<Rightarrow> database_service" where
  "connected_service t = fst (snd (connect (answering_driver [] []) (new_service t example_config)))"

text \<open>The table \<open>users (id integer not null, name varchar nullable)\<close> as a catalogue.\<close>

definition users_catalog :: catalog where
  \<open>users_catalog =
     [(JString ''users'',
       [(''{"name": "id", "type": "integer", "nullable": false}'',
         JObject [(''name'', JString ''id''), (''type'', JString ''integer''),
                  (''nullable'', JBool False)]),
        (''{"name": "name", "type": "character varying", "nullable": true}'',
         JObject [(''name'', JString ''name''), (''type'', JString ''character varying''),
                  (''nullable'', JBool True)])])]\<close>

text \<open>A backend holding a catalogue: each relational driver answers in its own shape.\<close>

definition catalog_driver :: "catalog \<Rightarrow> driver" where
  "catalog_driver cat =
     \<lparr>pg_connect = (\<lambda>c. None),
      pg_query = (\<lambda>c q ps. Inr (pg_catalog_rows cat)),
      pg_end = (\<lambda>c. None),
      mysql_createConnection = (\<lambda>c. Inr (MysqlConnection c)),
      mysql_query = (\<lambda>c q ps. Inr (mysql_catalog_rows cat)),
      mysql_end = (\<lambda>c. None),
      firestore_listCollections = (\<lambda>c. Inr [])\<rparr>"

section \<open>Properties of the dispatch\<close>

lemma connected_service_simps:
  "connected_service ''postgres'' =
     (new_service ''postgres'' example_config)\<lparr>postgresClient := Some (PgClient example_config)\<rparr>"
  "connected_service ''mysql'' =
     (new_service ''mysql'' example_config)\<lparr>mysqlConnection := Some (MysqlConnection example_config)\<rparr>"
  "connected_service ''firestore'' =
     (new_service ''firestore'' example_config)\<lparr>firestoreClient := Some (FirestoreClient example_config)\<rparr>"
  by (simp_all add: connected_service_def connect_def new_service_def answering_driver_def Let_def)






text \<open>
  C8. On an adapter of the document-store kind, \<open>getTriggers\<close> and \<open>getFunctions\<close>
  resolve with the empty sequence whatever the driver and whatever handles the adapter
  holds, and make no driver call.
\<close>

theorem firestore_triggers_functions_empty:
  assumes "config_type s = ''firestore''"
  shows "getTriggers d s = ([], Inr []) \<and> getFunctions d s = ([], Inr [])"
  using assms by (simp add: getTriggers_def getFunctions_def)

theorem firestore_triggers_functions_empty_witness:
  "config_type (new_service ''firestore'' example_config) = ''firestore''
   \<and> getTriggers offline_driver (new_service ''firestore'' example_config) = ([], Inr [])
   \<and> getFunctions offline_driver (new_service ''firestore'' example_config) = ([], Inr [])"
  using firestore_triggers_functions_empty
          [of "new_service ''firestore'' example_config" offline_driver]
  by (simp add: new_service_def)

text \<open>
  C9. On an adapter of the document-store kind whose client lists the collections
  \<open>ids\<close>, \<open>getTables\<close> resolves with one descriptor per collection, in order, whose
  name is the collection identifier and whose columns are the empty array; and whenever
  \<open>getTables\<close> resolves on that kind, every descriptor has the empty array as columns.
\<close>

theorem firestore_tables_no_columns:
  assumes "config_type s = ''firestore''"
  shows "(\<forall>c ids. firestoreClient s = Some c \<longrightarrow> firestore_listCollections d c = Inr ids \<longrightarrow>
            getTables d s =
              ([FirestoreListCollections],
               Inr (map (\<lambda>i. \<lparr>name = Some (JString i), columns = Some (JArray [])\<rparr>) ids)))
         \<and> (\<forall>calls ts. getTables d s = (calls, Inr ts) \<longrightarrow>
              list_all (\<lambda>t. columns t = Some (JArray [])) ts)"
proof (intro conjI allI impI)
  fix c ids
  assume "firestoreClient s = Some c" and "firestore_listCollections d c = Inr ids"
  with assms show "getTables d s =
      ([FirestoreListCollections],
       Inr (map (\<lambda>i. \<lparr>name = Some (JString i), columns = Some (JArray [])\<rparr>) ids))"
    by (simp add: getTables_def firestore_table_def)
next
  fix calls ts
  assume "getTables d s = (calls, Inr ts)"
  with assms have "\<exists>ids. ts = map firestore_table ids"
    by (auto simp: getTables_def split: option.splits sum.splits)
  then show "list_all (\<lambda>t. columns t = Some (JArray [])) ts"
    by (auto simp: list_all_iff firestore_table_def)
qed

theorem firestore_tables_no_columns_witness:
  "config_type (connected_service ''firestore'') = ''firestore''
   \<and> firestoreClient (connected_service ''firestore'') = Some (FirestoreClient example_config)
   \<and> getTables (answering_driver [] [''users'', ''orders'']) (connected_service ''firestore'') =
       ([FirestoreListCollections],
        Inr [\<lparr>name = Some (JString ''users''), columns = Some (JArray [])\<rparr>,
             \<lparr>name = Some (JString ''orders''), columns = Some (JArray [])\<rparr>])
   \<and> list_all (\<lambda>t. columns t = Some (JArray []))
        [\<lparr>name = Some (JString ''users''), columns = Some (JArray [])\<rparr>,
         \<lparr>name = Some (JString ''orders''), columns = Some (JArray [])\<rparr>]"
  using firestore_tables_no_columns
          [of "connected_service ''firestore''" "answering_driver [] [''users'', ''orders'']"]
  by (simp add: connected_service_simps new_service_def answering_driver_def)

text \<open>
  C3. On an adapter of the document-store kind, \<open>executeQuery\<close>, \<open>exportTableSchema\<close> and
  \<open>exportTableData\<close> reject with their "not supported for Firestore" errors, for every
  driver, every argument and every state of the handles, and make no driver call.
\<close>

theorem firestore_sql_unsupported:
  assumes "config_type s = ''firestore''"
  shows "executeQuery d s query = ([], Inl (Error ''SQL queries are not supported for Firestore''))
         \<and> exportTableSchema d s tableName =
             ([], Inl (Error ''SQL schema export is not supported for Firestore''))
         \<and> exportTableData d s tableName =
             ([], Inl (Error ''SQL data export is not supported for Firestore''))"
  using assms by (simp add: executeQuery_def exportTableSchema_def exportTableData_def)

theorem firestore_sql_unsupported_witness:
  "config_type (connected_service ''firestore'') = ''firestore''
   \<and> executeQuery (answering_driver [] []) (connected_service ''firestore'') ''SELECT 1'' =
       ([], Inl (Error ''SQL queries are not supported for Firestore''))
   \<and> exportTableSchema (answering_driver [] []) (connected_service ''firestore'') ''users'' =
       ([], Inl (Error ''SQL schema export is not supported for Firestore''))
   \<and> exportTableData (answering_driver [] []) (connected_service ''firestore'') ''users'' =
       ([], Inl (Error ''SQL data export is not supported for Firestore''))"
  using firestore_sql_unsupported
          [of "connected_service ''firestore''" "answering_driver [] []" "''SELECT 1''" "''users''"]
  by (simp add: connected_service_simps new_service_def)

text \<open>
  C10. For a configuration whose kind is none of the three recognised strings:
  \<open>getTables\<close>, \<open>getTriggers\<close> and \<open>getFunctions\<close> resolve with the empty sequence;
  \<open>executeQuery\<close>, \<open>exportTableSchema\<close> and \<open>exportTableData\<close> reject with
  "Unsupported database type"; \<open>disconnect\<close> resolves, makes no driver call and leaves the
  adapter as it was.
\<close>

theorem unknown_kind_operations:
  assumes "config_type s \<noteq> ''postgres''" and "config_type s \<noteq> ''mysql''"
    and "config_type s \<noteq> ''firestore''"
  shows "getTables d s = ([], Inr []) \<and> getTriggers d s = ([], Inr [])
         \<and> getFunctions d s = ([], Inr [])
         \<and> executeQuery d s query = ([], Inl (Error ''Unsupported database type''))
         \<and> exportTableSchema d s tableName = ([], Inl (Error ''Unsupported database type''))
         \<and> exportTableData d s tableName = ([], Inl (Error ''Unsupported database type''))
         \<and> disconnect d s = ([], s, Inr ())"
  using assms
  by (simp add: getTables_def getTriggers_def getFunctions_def executeQuery_def
      exportTableSchema_def exportTableData_def disconnect_def)

theorem unknown_kind_operations_witness:
  "config_type (new_service ''sqlite'' example_config) \<noteq> ''postgres''
   \<and> config_type (new_service ''sqlite'' example_config) \<noteq> ''mysql''
   \<and> config_type (new_service ''sqlite'' example_config) \<noteq> ''firestore''
   \<and> getTables offline_driver (new_service ''sqlite'' example_config) = ([], Inr [])
   \<and> getTriggers offline_driver (new_service ''sqlite'' example_config) = ([], Inr [])
   \<and> getFunctions offline_driver (new_service ''sqlite'' example_config) = ([], Inr [])
   \<and> executeQuery offline_driver (new_service ''sqlite'' example_config) ''SELECT 1'' =
       ([], Inl (Error ''Unsupported database type''))
   \<and> exportTableSchema offline_driver (new_service ''sqlite'' example_config) ''users'' =
       ([], Inl (Error ''Unsupported database type''))
   \<and> exportTableData offline_driver (new_service ''sqlite'' example_config) ''users'' =
       ([], Inl (Error ''Unsupported database type''))
   \<and> disconnect offline_driver (new_service ''sqlite'' example_config) =
       ([], new_service ''sqlite'' example_config, Inr ())"
  using unknown_kind_operations
          [of "new_service ''sqlite'' example_config" offline_driver "''SELECT 1''" "''users''"]
  by (simp add: new_service_def)

text \<open>
  The claim C2 as stated, that \<open>connect\<close> fails for an unknown kind, does not hold: for
  the kind \<open>sqlite\<close> it resolves, and the adapter still holds no handle.
\<close>

theorem connect_unknown_kind_counterexample:
  "connect offline_driver (new_service ''sqlite'' example_config) =
     ([], new_service ''sqlite'' example_config, Inr ())
   \<and> postgresClient (new_service ''sqlite'' example_config) = None
   \<and> mysqlConnection (new_service ''sqlite'' example_config) = None
   \<and> firestoreClient (new_service ''sqlite'' example_config) = None"
  by (simp add: connect_def new_service_def)

text \<open>
  C2, as the code has it. \<open>connect\<close> has no \<open>default\<close> branch: for a kind that is none
  of the three recognised strings it resolves, makes no driver call and leaves the adapter
  as it was, so no handle is created. (The declared type \<open>DatabaseType\<close> admits the three
  kinds only; nothing checks the kind when the adapter runs.)
\<close>

theorem connect_unknown_kind:
  assumes "config_type s \<noteq> ''postgres''" and "config_type s \<noteq> ''mysql''"
    and "config_type s \<noteq> ''firestore''"
  shows "connect d s = ([], s, Inr ())"
  using assms by (simp add: connect_def)

theorem connect_unknown_kind_witness:
  "config_type (new_service ''oracle'' example_config) \<noteq> ''postgres''
   \<and> config_type (new_service ''oracle'' example_config) \<noteq> ''mysql''
   \<and> config_type (new_service ''oracle'' example_config) \<noteq> ''firestore''
   \<and> connect (answering_driver [] []) (new_service ''oracle'' example_config) =
       ([], new_service ''oracle'' example_config, Inr ())"
  using connect_unknown_kind [of "new_service ''oracle'' example_config" "answering_driver [] []"]
  by (simp add: new_service_def)

text \<open>
  The claim C1 as stated, that every operation on an adapter without a handle fails with
  a Not-Connected condition and never with a null-reference fault, does not hold: on the
  document-store kind \<open>getTriggers\<close> and \<open>getFunctions\<close> resolve and \<open>executeQuery\<close>
  rejects as unsupported; and \<open>getTables\<close> on every kind, \<open>getTriggers\<close> and
  \<open>getFunctions\<close> on the relational kinds read a method from the absent handle, which is
  a \<open>TypeError\<close>.
\<close>

theorem no_handle_counterexample:
  "getTriggers offline_driver (new_service ''firestore'' example_config) = ([], Inr [])
   \<and> getFunctions offline_driver (new_service ''firestore'' example_config) = ([], Inr [])
   \<and> executeQuery offline_driver (new_service ''firestore'' example_config) ''SELECT 1'' =
       ([], Inl (Error ''SQL queries are not supported for Firestore''))
   \<and> getTables offline_driver (new_service ''firestore'' example_config) =
       ([], Inl (TypeError ''Cannot read properties of undefined (reading 'listCollections')''))
   \<and> getTables offline_driver (new_service ''postgres'' example_config) =
       ([], Inl (TypeError ''Cannot read properties of undefined (reading 'query')''))
   \<and> getTriggers offline_driver (new_service ''postgres'' example_config) =
       ([], Inl (TypeError ''Cannot read properties of undefined (reading 'query')''))
   \<and> getFunctions offline_driver (new_service ''postgres'' example_config) =
       ([], Inl (TypeError ''Cannot read properties of undefined (reading 'query')''))
   \<and> getTables offline_driver (new_service ''mysql'' example_config) =
       ([], Inl (TypeError ''Cannot read properties of undefined (reading 'query')''))
   \<and> getTriggers offline_driver (new_service ''mysql'' example_config) =
       ([], Inl (TypeError ''Cannot read properties of undefined (reading 'query')''))
   \<and> getFunctions offline_driver (new_service ''mysql'' example_config) =
       ([], Inl (TypeError ''Cannot read properties of undefined (reading 'query')''))"
  by (simp add: getTriggers_def getFunctions_def executeQuery_def getTables_def
      pg_query_unchecked_def mysql_query_unchecked_def undefined_read_def quote_char_def
      new_service_def)

text \<open>
  C1, as the code has it. With no handle in the adapter:
  on the two relational kinds \<open>executeQuery\<close>, \<open>exportTableSchema\<close> and
  \<open>exportTableData\<close> reject with the explicit error "PostgreSQL connection not found" or
  "MySQL connection not found" and make no driver call; on the document-store kind these
  three reject with their "not supported for Firestore" errors, and \<open>getTriggers\<close> and
  \<open>getFunctions\<close> resolve with the empty sequence. None of these outcomes is a
  \<open>TypeError\<close>. Nothing is said here of \<open>getTables\<close>, nor of \<open>getTriggers\<close> and
  \<open>getFunctions\<close> on the relational kinds.
\<close>

theorem no_handle_operations:
  assumes "postgresClient s = None" and "mysqlConnection s = None"
    and "firestoreClient s = None"
  shows "(config_type s = ''postgres'' \<longrightarrow>
            executeQuery d s query = ([], Inl (Error ''PostgreSQL connection not found''))
            \<and> exportTableSchema d s tableName =
                ([], Inl (Error ''PostgreSQL connection not found''))
            \<and> exportTableData d s tableName =
                ([], Inl (Error ''PostgreSQL connection not found'')))
         \<and> (config_type s = ''mysql'' \<longrightarrow>
            executeQuery d s query = ([], Inl (Error ''MySQL connection not found''))
            \<and> exportTableSchema d s tableName = ([], Inl (Error ''MySQL connection not found''))
            \<and> exportTableData d s tableName = ([], Inl (Error ''MySQL connection not found'')))
         \<and> (config_type s = ''firestore'' \<longrightarrow>
            executeQuery d s query =
              ([], Inl (Error ''SQL queries are not supported for Firestore''))
            \<and> exportTableSchema d s tableName =
                ([], Inl (Error ''SQL schema export is not supported for Firestore''))
            \<and> exportTableData d s tableName =
                ([], Inl (Error ''SQL data export is not supported for Firestore''))
            \<and> getTriggers d s = ([], Inr [])
            \<and> getFunctions d s = ([], Inr []))"
  using assms
  by (simp add: executeQuery_def exportTableSchema_def exportTableData_def getTriggers_def
      getFunctions_def pg_query_guarded_def mysql_query_guarded_def)

theorem no_handle_operations_witness:
  "postgresClient (new_service ''postgres'' example_config) = None
   \<and> executeQuery offline_driver (new_service ''postgres'' example_config) ''SELECT 1'' =
       ([], Inl (Error ''PostgreSQL connection not found''))
   \<and> exportTableSchema offline_driver (new_service ''postgres'' example_config) ''users'' =
       ([], Inl (Error ''PostgreSQL connection not found''))
   \<and> exportTableData offline_driver (new_service ''postgres'' example_config) ''users'' =
       ([], Inl (Error ''PostgreSQL connection not found''))
   \<and> mysqlConnection (new_service ''mysql'' example_config) = None
   \<and> executeQuery offline_driver (new_service ''mysql'' example_config) ''SELECT 1'' =
       ([], Inl (Error ''MySQL connection not found''))
   \<and> exportTableSchema offline_driver (new_service ''mysql'' example_config) ''users'' =
       ([], Inl (Error ''MySQL connection not found''))
   \<and> exportTableData offline_driver (new_service ''mysql'' example_config) ''users'' =
       ([], Inl (Error ''MySQL connection not found''))
   \<and> firestoreClient (new_service ''firestore'' example_config) = None
   \<and> exportTableData offline_driver (new_service ''firestore'' example_config) ''users'' =
       ([], Inl (Error ''SQL data export is not supported for Firestore''))
   \<and> getFunctions offline_driver (new_service ''firestore'' example_config) = ([], Inr [])"
  using no_handle_operations
          [of "new_service ''postgres'' example_config" offline_driver "''SELECT 1''" "''users''"]
        no_handle_operations
          [of "new_service ''mysql'' example_config" offline_driver "''SELECT 1''" "''users''"]
        no_handle_operations
          [of "new_service ''firestore'' example_config" offline_driver "''SELECT 1''" "''users''"]
  by (simp add: new_service_def)

text \<open>
  The claim C6 as stated, that \<open>exportTableSchema\<close> returns the empty string whenever
  the table does not exist, does not hold on relational-B: the backend reports a missing
  table as an error of the schema query, and the adapter, which catches nothing, rejects
  with that error.
\<close>

theorem export_schema_missing_table_counterexample:
  "exportTableSchema missing_table_driver (connected_service ''mysql'') ''missing'' =
     ([MysqlQuery ''SHOW CREATE TABLE ??'' [JString ''missing'']],
      Inl (DriverError ''ER_NO_SUCH_TABLE''))"
  by (simp add: exportTableSchema_def mysql_query_guarded_def connected_service_simps
      new_service_def missing_table_driver_def mysql_schema_query_def)

text \<open>
  C6, as the code has it. On a connected relational adapter: when the backend answers the
  select of \<open>exportTableData\<close> with no row, the export is the empty string; when it
  answers the schema query of \<open>exportTableSchema\<close> with no row (as the catalogue query
  of relational-A does for a table without columns and for a missing table), the export
  is the empty string; and when it reports an error for the schema query (as relational-B
  does for a missing table), \<open>exportTableSchema\<close> rejects with that error.
\<close>

theorem export_empty_answer_or_error:
  "(config_type s = ''postgres'' \<and> postgresClient s = Some c
      \<and> pg_query d c (pg_data_query tableName) [] = Inr [] \<longrightarrow>
        exportTableData d s tableName = ([PgQuery (pg_data_query tableName) []], Inr []))
   \<and> (config_type s = ''mysql'' \<and> mysqlConnection s = Some m
      \<and> mysql_query d m mysql_data_query [JString tableName] = Inr [] \<longrightarrow>
        exportTableData d s tableName = ([MysqlQuery mysql_data_query [JString tableName]], Inr []))
   \<and> (config_type s = ''postgres'' \<and> postgresClient s = Some c
      \<and> pg_query d c pg_schema_query [JString tableName] = Inr [] \<longrightarrow>
        exportTableSchema d s tableName =
          ([PgQuery pg_schema_query [JString tableName]], Inr (JString [])))
   \<and> (config_type s = ''mysql'' \<and> mysqlConnection s = Some m
      \<and> mysql_query d m mysql_schema_query [JString tableName] = Inr [] \<longrightarrow>
        exportTableSchema d s tableName =
          ([MysqlQuery mysql_schema_query [JString tableName]], Inr (JString [])))
   \<and> (config_type s = ''postgres'' \<and> postgresClient s = Some c
      \<and> pg_query d c pg_schema_query [JString tableName] = Inl msg \<longrightarrow>
        exportTableSchema d s tableName =
          ([PgQuery pg_schema_query [JString tableName]], Inl (DriverError msg)))
   \<and> (config_type s = ''mysql'' \<and> mysqlConnection s = Some m
      \<and> mysql_query d m mysql_schema_query [JString tableName] = Inl msg \<longrightarrow>
        exportTableSchema d s tableName =
          ([MysqlQuery mysql_schema_query [JString tableName]], Inl (DriverError msg)))"
  by (simp add: exportTableData_def exportTableSchema_def pg_query_guarded_def
      mysql_query_guarded_def insert_statements_def first_field_or_empty_def)

theorem export_empty_answer_or_error_witness:
  "postgresClient (connected_service ''postgres'') = Some (PgClient example_config)
   \<and> exportTableData (answering_driver [] []) (connected_service ''postgres'') ''users'' =
       ([PgQuery ''SELECT * FROM users;'' []], Inr [])
   \<and> exportTableSchema (answering_driver [] []) (connected_service ''postgres'') ''users'' =
       ([PgQuery pg_schema_query [JString ''users'']], Inr (JString []))
   \<and> mysqlConnection (connected_service ''mysql'') = Some (MysqlConnection example_config)
   \<and> exportTableData (answering_driver [] []) (connected_service ''mysql'') ''users'' =
       ([MysqlQuery ''SELECT * FROM ??'' [JString ''users'']], Inr [])
   \<and> exportTableSchema (answering_driver [] []) (connected_service ''mysql'') ''users'' =
       ([MysqlQuery ''SHOW CREATE TABLE ??'' [JString ''users'']], Inr (JString []))
   \<and> exportTableSchema offline_driver (connected_service ''postgres'') ''users'' =
       ([PgQuery pg_schema_query [JString ''users'']], Inl (DriverError ''ECONNREFUSED''))
   \<and> exportTableSchema offline_driver (connected_service ''mysql'') ''users'' =
       ([MysqlQuery ''SHOW CREATE TABLE ??'' [JString ''users'']],
        Inl (DriverError ''ECONNREFUSED''))"
  using export_empty_answer_or_error
          [of "connected_service ''postgres''" "PgClient example_config" "answering_driver [] []"
              "''users''" "MysqlConnection example_config"]
        export_empty_answer_or_error
          [of "connected_service ''mysql''" "PgClient example_config" "answering_driver [] []"
              "''users''" "MysqlConnection example_config"]
        export_empty_answer_or_error
          [of "connected_service ''postgres''" "PgClient example_config" offline_driver
              "''users''" "MysqlConnection example_config" "''ECONNREFUSED''"]
        export_empty_answer_or_error
          [of "connected_service ''mysql''" "PgClient example_config" offline_driver
              "''users''" "MysqlConnection example_config" "''ECONNREFUSED''"]
  by (simp add: connected_service_simps new_service_def answering_driver_def offline_driver_def
      pg_data_query_def mysql_data_query_def mysql_schema_query_def)

lemma nat_to_string_1: "nat_to_string (Suc 0) = ''1''"
  by code_simp




text \<open>
  C5. The round trip the claim asks for does not hold of the code: the export of the
  table \<open>notes\<close> on relational-B is the statement below. Its column names are written
  as they are, and its string literal has only the single quotes doubled. The column name
  \<open>order\<close> is a reserved word, and in the literal syntax of relational-B a backslash
  escapes the quote after it, so the statement does not replay. (The select of the same
  branch passes the table name through the identifier placeholder \<open>??\<close>, and
  \<open>exportTableSchema\<close> on relational-A quotes identifiers with \<open>quote_ident\<close>.)
\<close>

theorem export_notes_text:
  "exportTableData (answering_driver notes_rows []) (connected_service ''mysql'') ''notes'' =
     ([MysqlQuery ''SELECT * FROM ??'' [JString ''notes'']],
      Inr (''INSERT INTO notes (order, body) VALUES (1, '' @ [quote_char, CHR ''a'', CHR 0x5C, quote_char]
           @ '');''))"
  by (simp add: exportTableData_def mysql_query_guarded_def connected_service_simps
      new_service_def answering_driver_def mysql_data_query_def insert_statements_def
      insert_statement_def notes_rows_def object_keys_def js_join_def join_element_def
      export_value_def get_prop_def int_to_string_def nat_to_string_1 quote_char_def)

section \<open>The JSON reader on concatenated fragments\<close>

lemma skip_ws_append: "skip_ws s \<noteq> [] \<Longrightarrow> skip_ws (s @ t) = skip_ws s @ t"
  by (induction s) auto

lemma cons_result_Some: "cons_result c x = Some (s, r) \<longleftrightarrow> (\<exists>s'. s = c # s' \<and> x = Some (s', r))"
  by (auto simp: cons_result_def split: option.splits)

lemma cons_result_simp [simp]: "cons_result c None = None" "cons_result c (Some (s, r)) = Some (c # s, r)"
  by (auto simp: cons_result_def)

lemma parse_chars_append: "parse_chars s = Some (v, r) \<Longrightarrow> parse_chars (s @ t) = Some (v, r @ t)"
proof (induction s arbitrary: v rule: parse_chars.induct)
  case 1
  then show ?case by simp
next
  case (2 c cs)
  show ?case
  proof (cases "c = CHR 0x22")
    case True
    with "2.prems" show ?thesis by simp
  next
    case nq: False
    show ?thesis
    proof (cases "c = CHR 0x5C")
      case False
      with nq "2.prems" obtain v' where v': "parse_chars cs = Some (v', r)" "v = c # v'" "\<not> (of_char c :: nat) < 32"
        by (auto simp: cons_result_Some split: if_splits)
      from "2.IH"(3)[OF nq False v'(3) v'(1)] show ?thesis using nq False v' by simp
    next
      case bs: True
      show ?thesis
      proof (cases cs)
        case Nil
        with "2.prems" nq bs show ?thesis by simp
      next
        case (Cons e rest)
        show ?thesis
        proof (cases "e = CHR ''u''")
          case False
          with "2.prems" nq bs Cons obtain ch v' where
            v': "escape_char e = Some ch" "parse_chars rest = Some (v', r)" "v = ch # v'"
            by (auto simp: cons_result_Some split: option.splits)
          from "2.IH"(2)[OF nq bs Cons False v'(1) v'(2)] show ?thesis
            using nq bs Cons False v' by simp
        next
          case u: True
          with "2.prems" nq bs Cons obtain a b x y r' ch v' where
            v': "rest = a # b # x # y # r'" "hex4 a b x y = Some ch"
                "parse_chars r' = Some (v', r)" "v = ch # v'"
            by (auto simp: cons_result_Some split: option.splits list.splits)
          have "parse_chars (r' @ t) = Some (v', r @ t)"
            using "2.IH"(1) nq bs Cons u v' by blast
          then show ?thesis
            using nq bs Cons u v' by simp
        qed
      qed
    qed
  qed
qed


lemma skip_ws_append_Cons: "skip_ws s = c # cs \<Longrightarrow> skip_ws (s @ t) = c # cs @ t"
  using skip_ws_append[of s t] by simp

lemma parse_digits_append:
  "parse_digits a s = (n, r) \<Longrightarrow> r \<noteq> [] \<or> ends_value t \<Longrightarrow> parse_digits a (s @ t) = (n, r @ t)"
proof (induction s arbitrary: a)
  case Nil
  then show ?case by (cases t) (auto simp: ends_value_def)
next
  case (Cons c cs)
  then show ?case by (auto split: if_splits)
qed

lemma parse_nat_append:
  "parse_nat s = Some (n, r) \<Longrightarrow> r \<noteq> [] \<or> ends_value t \<Longrightarrow> parse_nat (s @ t) = Some (n, r @ t)"
  by (cases s) (auto simp: parse_nat_def parse_digits_append split: if_splits)

lemma fraction_start_append:
  "r \<noteq> [] \<or> ends_value t \<Longrightarrow> fraction_start (r @ t) = fraction_start r"
  by (cases r; cases t) (auto simp: fraction_start_def ends_value_def)

lemma parse_number_append:
  assumes "parse_number s = Some (v, r)" and "r \<noteq> [] \<or> ends_value t"
  shows "parse_number (s @ t) = Some (v, r @ t)"
proof (cases s)
  case Nil
  with assms show ?thesis by (simp add: parse_number_def)
next
  case (Cons c cs)
  show ?thesis
  proof (cases "c = CHR ''-''")
    case True
    with assms(1) Cons obtain n where n: "parse_nat cs = Some (n, r)" "\<not> fraction_start r" "v = JNumber (- int n)"
      by (auto simp: parse_number_def split: option.splits if_splits)
    from parse_nat_append[OF n(1) assms(2)] n fraction_start_append[OF assms(2)] True Cons
    show ?thesis by (simp add: parse_number_def)
  next
    case False
    with assms(1) Cons obtain n where n: "parse_nat s = Some (n, r)" "\<not> fraction_start r" "v = JNumber (int n)"
      by (auto simp: parse_number_def split: option.splits if_splits)
    from parse_nat_append[OF n(1) assms(2)] n fraction_start_append[OF assms(2)] False Cons
    show ?thesis by (simp add: parse_number_def)
  qed
qed

lemma take_append_eq: "take k s = w \<Longrightarrow> length w = k \<Longrightarrow> take k (s @ t) = w \<and> drop k (s @ t) = drop k s @ t"
  by (cases "k \<le> length s") auto

lemma take_append_neq: "take k s \<noteq> w \<Longrightarrow> k \<le> length s \<Longrightarrow> take k (s @ t) \<noteq> w"
  by auto

lemma parse_literal_append:
  assumes "parse_literal s = Some (v, r)"
  shows "parse_literal (s @ t) = Some (v, r @ t)"
proof -
  from assms have len: "4 \<le> length s"
    by (cases "4 \<le> length s") (auto simp: parse_literal_def split: if_splits)
  show ?thesis
  proof (cases "take 4 s = ''true''")
    case True
    with assms take_append_eq[OF True, of t] show ?thesis by (auto simp: parse_literal_def)
  next
    case nt: False
    show ?thesis
    proof (cases "take 5 s = ''false''")
      case True
      with assms nt take_append_eq[OF True, of t] take_append_neq[OF nt len, of t]
      show ?thesis by (auto simp: parse_literal_def)
    next
      case nf: False
      with assms nt have nu: "take 4 s = ''null''"
        by (auto simp: parse_literal_def split: if_splits)
      have l5: "take 5 (s @ t) \<noteq> ''false''"
        using nu len by (cases s; simp)
      with assms nt nf nu take_append_eq[OF nu, of t] take_append_neq[OF nt len, of t]
      show ?thesis by (auto simp: parse_literal_def)
    qed
  qed
qed

lemma parse_append:
  "(\<forall>v r. parse_value n s = Some (v, r) \<longrightarrow> (r \<noteq> [] \<or> ends_value t) \<longrightarrow>
      parse_value n (s @ t) = Some (v, r @ t))"
  "(\<forall>vs r. parse_elements n s = Some (vs, r) \<longrightarrow> parse_elements n (s @ t) = Some (vs, r @ t))"
  "(\<forall>ps r. parse_members n s = Some (ps, r) \<longrightarrow> parse_members n (s @ t) = Some (ps, r @ t))"
proof (induction n s and n s and n s rule: parse_value_parse_elements_parse_members.induct)
  case (1 s)
  then show ?case by simp
next
  case (2 n s)
  show ?case
  proof (intro allI impI)
    fix v r
    assume p: "parse_value (Suc n) s = Some (v, r)" and e: "r \<noteq> [] \<or> ends_value t"
    from p obtain c cs where sk: "skip_ws s = c # cs"
      by (cases "skip_ws s") auto
    note sk' = skip_ws_append_Cons[OF sk, of t]
    consider (arr) "c = CHR ''[''" | (obj) "c \<noteq> CHR ''[''" "c = CHR ''{''"
      | (str) "c \<noteq> CHR ''[''" "c \<noteq> CHR ''{''" "c = CHR 0x22"
      | (num) "c \<noteq> CHR ''[''" "c \<noteq> CHR ''{''" "c \<noteq> CHR 0x22" "c = CHR ''-'' \<or> is_digit c"
      | (lit) "c \<noteq> CHR ''[''" "c \<noteq> CHR ''{''" "c \<noteq> CHR 0x22" "\<not> (c = CHR ''-'' \<or> is_digit c)"
      by blast
    then show "parse_value (Suc n) (s @ t) = Some (v, r @ t)"
    proof cases
      case arr
      from p sk arr obtain d ds where sk2: "skip_ws cs = d # ds"
        by (cases "skip_ws cs") auto
      note sk2' = skip_ws_append_Cons[OF sk2, of t]
      show ?thesis
      proof (cases "d = CHR '']''")
        case True
        with p sk sk' arr sk2 sk2' show ?thesis by simp
      next
        case False
        with p sk arr sk2 obtain vs where vs: "parse_elements n cs = Some (vs, r)" "v = JArray vs"
          by (auto split: option.splits)
        from "2.IH"(1)[OF sk arr sk2 False] vs have "parse_elements n (cs @ t) = Some (vs, r @ t)"
          by blast
        with sk' arr sk2' False vs show ?thesis by simp
      qed
    next
      case obj
      from p sk obj obtain d ds where sk2: "skip_ws cs = d # ds"
        by (cases "skip_ws cs") auto
      note sk2' = skip_ws_append_Cons[OF sk2, of t]
      show ?thesis
      proof (cases "d = CHR ''}''")
        case True
        with p sk sk' obj sk2 sk2' show ?thesis by simp
      next
        case False
        with p sk obj sk2 obtain ps where ps: "parse_members n cs = Some (ps, r)" "v = JObject (make_object ps)"
          by (auto split: option.splits)
        from "2.IH"(2)[OF sk obj sk2 False] ps have "parse_members n (cs @ t) = Some (ps, r @ t)"
          by blast
        with sk' obj sk2' False ps show ?thesis by simp
      qed
    next
      case str
      with p sk obtain str where st: "parse_chars cs = Some (str, r)" "v = JString str"
        by (auto split: option.splits)
      from parse_chars_append[OF st(1), of t] sk' str st show ?thesis by simp
    next
      case num
      with p sk have "parse_number (c # cs) = Some (v, r)" by auto
      from parse_number_append[OF this e] sk' num show ?thesis by auto
    next
      case lit
      with p sk have "parse_literal (c # cs) = Some (v, r)" by auto
      from parse_literal_append[OF this, of t] sk' lit show ?thesis by auto
    qed
  qed
next
  case (3 s)
  then show ?case by simp
next
  case (4 n s)
  show ?case
  proof (intro allI impI)
    fix vs r
    assume p: "parse_elements (Suc n) s = Some (vs, r)"
    from p obtain v r1 where v: "parse_value n s = Some (v, r1)"
      by (cases "parse_value n s") auto
    from p v obtain c cs where sk: "skip_ws r1 = c # cs"
      by (cases "skip_ws r1") auto
    then have ne: "r1 \<noteq> []" by auto
    from "4.IH"(1) v ne have v': "parse_value n (s @ t) = Some (v, r1 @ t)" by blast
    note sk' = skip_ws_append_Cons[OF sk, of t]
    show "parse_elements (Suc n) (s @ t) = Some (vs, r @ t)"
    proof (cases "c = CHR '',''")
      case True
      with p v sk obtain vs' where vs': "parse_elements n cs = Some (vs', r)" "vs = v # vs'"
        by (auto split: option.splits)
      from "4.IH"(2)[OF v refl sk True] vs' have "parse_elements n (cs @ t) = Some (vs', r @ t)"
        by blast
      with v' sk' True vs' show ?thesis by simp
    next
      case False
      with p v sk v' sk' show ?thesis by (auto split: if_splits)
    qed
  qed
next
  case (5 s)
  then show ?case by simp
next
  case (6 n s)
  show ?case
  proof (intro allI impI)
    fix ps r
    assume p: "parse_members (Suc n) s = Some (ps, r)"
    from p obtain q ks where sk0: "skip_ws s = q # ks"
      by (cases "skip_ws s") auto
    from p sk0 have q: "q = CHR 0x22" by (auto split: if_splits)
    from p sk0 q obtain k r1 where k: "parse_chars ks = Some (k, r1)"
      by (cases "parse_chars ks") auto
    from p sk0 q k obtain colon r2 where sk1: "skip_ws r1 = colon # r2"
      by (cases "skip_ws r1") auto
    from p sk0 q k sk1 have colon: "colon = CHR '':''" by (auto split: if_splits)
    from p sk0 q k sk1 colon obtain v r3 where v: "parse_value n r2 = Some (v, r3)"
      by (cases "parse_value n r2") auto
    from p sk0 q k sk1 colon v obtain c cs where sk3: "skip_ws r3 = c # cs"
      by (cases "skip_ws r3") auto
    then have ne: "r3 \<noteq> []" by auto
    have q': "\<not> q \<noteq> CHR 0x22" using q by simp
    have colon': "\<not> colon \<noteq> CHR '':''" using colon by simp
    from "6.IH"(1)[OF sk0 q' k refl sk1 colon'] v ne
    have v': "parse_value n (r2 @ t) = Some (v, r3 @ t)" by blast
    note sk0' = skip_ws_append_Cons[OF sk0, of t]
    note k' = parse_chars_append[OF k, of t]
    note sk1' = skip_ws_append_Cons[OF sk1, of t]
    note sk3' = skip_ws_append_Cons[OF sk3, of t]
    show "parse_members (Suc n) (s @ t) = Some (ps, r @ t)"
    proof (cases "c = CHR '',''")
      case True
      with p sk0 q k sk1 colon v sk3 obtain ps' where
        ps': "parse_members n cs = Some (ps', r)" "ps = (k, v) # ps'"
        by (auto split: option.splits)
      from "6.IH"(2)[OF sk0 q' k refl sk1 colon' v refl sk3 True] ps'
      have "parse_members n (cs @ t) = Some (ps', r @ t)" by blast
      with sk0' q k' sk1' colon v' sk3' True ps' show ?thesis by simp
    next
      case False
      with p sk0 q k sk1 colon v sk3 sk0' k' sk1' v' sk3' show ?thesis
        by (auto split: if_splits)
    qed
  qed
qed

lemma parse_mono:
  "(\<forall>x m. parse_value n s = Some x \<longrightarrow> n \<le> m \<longrightarrow> parse_value m s = Some x)"
  "(\<forall>x m. parse_elements n s = Some x \<longrightarrow> n \<le> m \<longrightarrow> parse_elements m s = Some x)"
  "(\<forall>x m. parse_members n s = Some x \<longrightarrow> n \<le> m \<longrightarrow> parse_members m s = Some x)"
proof (induction n s and n s and n s rule: parse_value_parse_elements_parse_members.induct)
  case (1 s)
  then show ?case by simp
next
  case (2 n s)
  show ?case
  proof (intro allI impI)
    fix x m
    assume p: "parse_value (Suc n) s = Some x" and le: "Suc n \<le> m"
    then obtain m' where m: "m = Suc m'" and le': "n \<le> m'"
      by (cases m) auto
    from p obtain c cs where sk: "skip_ws s = c # cs"
      by (cases "skip_ws s") auto
    consider (arr) "c = CHR ''[''" | (obj) "c \<noteq> CHR ''[''" "c = CHR ''{''"
      | (other) "c \<noteq> CHR ''[''" "c \<noteq> CHR ''{''"
      by blast
    then show "parse_value m s = Some x"
    proof cases
      case arr
      from p sk arr obtain d ds where sk2: "skip_ws cs = d # ds"
        by (cases "skip_ws cs") auto
      show ?thesis
      proof (cases "d = CHR '']''")
        case True
        with p sk arr sk2 m show ?thesis by simp
      next
        case False
        with p sk arr sk2 obtain y where y: "parse_elements n cs = Some y"
          by (auto split: option.splits)
        from "2.IH"(1)[OF sk arr sk2 False] y le' have "parse_elements m' cs = Some y"
          by blast
        with p y sk arr sk2 False m show ?thesis by simp
      qed
    next
      case obj
      from p sk obj obtain d ds where sk2: "skip_ws cs = d # ds"
        by (cases "skip_ws cs") auto
      show ?thesis
      proof (cases "d = CHR ''}''")
        case True
        with p sk obj sk2 m show ?thesis by simp
      next
        case False
        with p sk obj sk2 obtain y where y: "parse_members n cs = Some y"
          by (auto split: option.splits)
        from "2.IH"(2)[OF sk obj sk2 False] y le' have "parse_members m' cs = Some y"
          by blast
        with p y sk obj sk2 False m show ?thesis by simp
      qed
    next
      case other
      with p sk m show ?thesis by simp
    qed
  qed
next
  case (3 s)
  then show ?case by simp
next
  case (4 n s)
  show ?case
  proof (intro allI impI)
    fix x m
    assume p: "parse_elements (Suc n) s = Some x" and le: "Suc n \<le> m"
    then obtain m' where m: "m = Suc m'" and le': "n \<le> m'"
      by (cases m) auto
    from p obtain v r1 where v: "parse_value n s = Some (v, r1)"
      by (cases "parse_value n s") auto
    from p v obtain c cs where sk: "skip_ws r1 = c # cs"
      by (cases "skip_ws r1") auto
    from "4.IH"(1) v le' have v': "parse_value m' s = Some (v, r1)" by blast
    show "parse_elements m s = Some x"
    proof (cases "c = CHR '',''")
      case True
      with p v sk obtain y where y: "parse_elements n cs = Some y"
        by (auto split: option.splits)
      from "4.IH"(2)[OF v refl sk True] y le' have "parse_elements m' cs = Some y"
        by blast
      with p v v' sk True y m show ?thesis by simp
    next
      case False
      with p v sk v' m show ?thesis by simp
    qed
  qed
next
  case (5 s)
  then show ?case by simp
next
  case (6 n s)
  show ?case
  proof (intro allI impI)
    fix x m
    assume p: "parse_members (Suc n) s = Some x" and le: "Suc n \<le> m"
    then obtain m' where m: "m = Suc m'" and le': "n \<le> m'"
      by (cases m) auto
    from p obtain q ks where sk0: "skip_ws s = q # ks"
      by (cases "skip_ws s") auto
    from p sk0 have q: "q = CHR 0x22" by (auto split: if_splits)
    from p sk0 q obtain k r1 where k: "parse_chars ks = Some (k, r1)"
      by (cases "parse_chars ks") auto
    from p sk0 q k obtain colon r2 where sk1: "skip_ws r1 = colon # r2"
      by (cases "skip_ws r1") auto
    from p sk0 q k sk1 have colon: "colon = CHR '':''" by (auto split: if_splits)
    from p sk0 q k sk1 colon obtain v r3 where v: "parse_value n r2 = Some (v, r3)"
      by (cases "parse_value n r2") auto
    from p sk0 q k sk1 colon v obtain c cs where sk3: "skip_ws r3 = c # cs"
      by (cases "skip_ws r3") auto
    have q': "\<not> q \<noteq> CHR 0x22" using q by simp
    have colon': "\<not> colon \<noteq> CHR '':''" using colon by simp
    from "6.IH"(1)[OF sk0 q' k refl sk1 colon'] v le'
    have v': "parse_value m' r2 = Some (v, r3)" by blast
    show "parse_members m s = Some x"
    proof (cases "c = CHR '',''")
      case True
      with p sk0 q k sk1 colon v sk3 obtain y where y: "parse_members n cs = Some y"
        by (auto split: option.splits)
      from "6.IH"(2)[OF sk0 q' k refl sk1 colon' v refl sk3 True] y le'
      have "parse_members m' cs = Some y" by blast
      with p sk0 q k sk1 colon v v' sk3 True y m show ?thesis by simp
    next
      case False
      with p sk0 q k sk1 colon v v' sk3 m show ?thesis by simp
    qed
  qed
qed

lemma skip_ws_append_Nil: "skip_ws r = [] \<Longrightarrow> skip_ws (r @ t) = skip_ws t"
  by (induction r) (auto split: if_splits)

lemma parse_value_starts:
  assumes "parse_value n s = Some x"
  shows "\<exists>c cs. skip_ws s = c # cs \<and> c \<noteq> CHR '']''"
proof (cases n)
  case 0
  with assms show ?thesis by simp
next
  case (Suc n')
  with assms obtain c cs where sk: "skip_ws s = c # cs"
    by (cases "skip_ws s") auto
  have "c \<noteq> CHR '']''"
  proof
    assume "c = CHR '']''"
    with assms Suc sk show False
      by (simp add: is_digit_def parse_literal_def)
  qed
  with sk show ?thesis by blast
qed

lemma skip_ws_not_ws: "\<not> is_ws c \<Longrightarrow> skip_ws (c # cs) = c # cs"
  by simp

lemma is_ws_simps [simp]:
  "\<not> is_ws (CHR '','')" "\<not> is_ws (CHR '']'')" "\<not> is_ws (CHR ''['')"
  by (simp_all add: is_ws_def)

lemma ends_value_delims [simp]:
  "ends_value (CHR '','' # t)" "ends_value (CHR '']'' # t)"
  by (simp_all add: ends_value_def is_digit_def)

lemma json_parse_InrD:
  assumes "json_parse f = Inr v"
  obtains r where "parse_value (Suc (length f)) f = Some (v, r)" and "skip_ws r = []"
  using assms by (auto simp: json_parse_def split: option.splits if_splits)

lemma parse_value_fragment:
  assumes f: "json_parse f = Inr v"
    and n: "Suc (length f) \<le> n"
    and t: "t = CHR '','' # t' \<or> t = CHR '']'' # t'"
  shows "\<exists>r. parse_value n (f @ t) = Some (v, r) \<and> skip_ws r = t"
proof -
  from f obtain r where r: "parse_value (Suc (length f)) f = Some (v, r)" "skip_ws r = []"
    by (rule json_parse_InrD)
  from t have e: "ends_value t" by auto
  from parse_append(1)[of "Suc (length f)" f t] r(1) e
  have "parse_value (Suc (length f)) (f @ t) = Some (v, r @ t)" by blast
  with parse_mono(1)[of "Suc (length f)" "f @ t"] n
  have "parse_value n (f @ t) = Some (v, r @ t)" by blast
  moreover from t have "skip_ws (r @ t) = t"
    by (auto simp: skip_ws_append_Nil[OF r(2)])
  ultimately show ?thesis by blast
qed

lemma parse_elements_fragments:
  assumes "list_all2 (\<lambda>f v. json_parse f = Inr v) fs vs" and "fs \<noteq> []"
    and "length (join_strings '','' fs) + 2 \<le> n"
  shows "parse_elements n (join_strings '','' fs @ CHR '']'' # t) = Some (vs, t)"
  using assms
proof (induction fs vs arbitrary: n rule: list_all2_induct)
  case Nil
  then show ?case by simp
next
  case step: (Cons f fs v vs)
  from step.prems obtain n' where n: "n = Suc n'" by (cases n) auto
  show ?case
  proof (cases fs)
    case Nil
    with step.hyps have vs: "vs = []" by simp
    from step.prems n Nil have le: "Suc (length f) \<le> n'" by simp
    from parse_value_fragment[OF step.hyps(1) le, of "CHR '']'' # t" t]
    obtain r where "parse_value n' (f @ CHR '']'' # t) = Some (v, r)" "skip_ws r = CHR '']'' # t"
      by blast
    with n Nil vs show ?thesis by simp
  next
    case (Cons f2 fs2)
    let ?rest = "join_strings '','' (f2 # fs2) @ CHR '']'' # t"
    from step.prems n Cons have le: "Suc (length f) \<le> n'"
      and le2: "length (join_strings '','' fs) + 2 \<le> n'"
      by simp_all
    from parse_value_fragment[OF step.hyps(1) le, of "CHR '','' # ?rest" ?rest]
    obtain r where r: "parse_value n' (f @ CHR '','' # ?rest) = Some (v, r)"
      "skip_ws r = CHR '','' # ?rest"
      by blast
    from step.IH[OF _ le2] Cons have "parse_elements n' ?rest = Some (vs, t)" by simp
    with r n Cons show ?thesis by simp
  qed
qed

lemma json_parse_fragments:
  assumes "list_all2 (\<lambda>f v. json_parse f = Inr v) fs vs"
  shows "json_parse (''['' @ join_strings '','' fs @ '']'') = Inr (JArray vs)"
proof (cases fs)
  case Nil
  with assms have "vs = []" by simp
  with Nil show ?thesis by (simp add: json_parse_def)
next
  case (Cons f fs')
  with assms obtain v vs' where vs: "vs = v # vs'" and f: "json_parse f = Inr v"
    by (auto simp: list_all2_Cons1)
  let ?J = "join_strings '','' fs"
  from f obtain r where "parse_value (Suc (length f)) f = Some (v, r)"
    by (rule json_parse_InrD)
  from parse_value_starts[OF this] obtain c cs where c: "skip_ws f = c # cs" "c \<noteq> CHR '']''"
    by blast
  obtain u where J: "?J = f @ u" using Cons by (cases fs') auto
  from skip_ws_append_Cons[OF c(1), of "u @ '']''"] J
  have sk: "skip_ws (?J @ '']'') = c # cs @ u @ '']''" by simp
  from parse_elements_fragments[OF assms, of "length ?J + 2" "[]"] Cons
  have pe: "parse_elements (length ?J + 2) (?J @ '']'') = Some (vs, [])" by simp
  have "parse_value (Suc (length ?J + 2)) (CHR ''['' # ?J @ '']'') = Some (JArray vs, [])"
    using sk c(2) pe by simp
  then show ?thesis by (simp add: json_parse_def)
qed

lemma mysql_table_catalog:
  assumes "list_all (\<lambda>(f, v). json_parse f = Inr v) cols"
  shows "mysql_table [(''tableName'', n), (''columns'', JString (join_strings '','' (map fst cols)))]
         = Inr \<lparr>name = Some n, columns = Some (JArray (map snd cols))\<rparr>"
proof -
  from assms have "list_all2 (\<lambda>f v. json_parse f = Inr v) (map fst cols) (map snd cols)"
    by (induction cols) auto
  from json_parse_fragments[OF this] show ?thesis
    by (simp add: mysql_table_def get_prop_def to_string_def)
qed

lemma map_result_mysql_catalog:
  assumes "well_formed_catalog cat"
  shows "map_result mysql_table (mysql_catalog_rows cat) = Inr (catalog_tables cat)"
  using assms
proof (induction cat)
  case Nil
  then show ?case by (simp add: mysql_catalog_rows_def catalog_tables_def)
next
  case (Cons e cat)
  obtain n cols where e: "e = (n, cols)" by (cases e)
  from Cons.prems e have cols: "list_all (\<lambda>(f, v). json_parse f = Inr v) cols"
    and wf: "well_formed_catalog cat"
    by (simp_all add: well_formed_catalog_def)
  from Cons.IH[OF wf] mysql_table_catalog[OF cols, of n] e show ?case
    by (simp add: mysql_catalog_rows_def catalog_tables_def)
qed

lemma map_pg_catalog: "map pg_table (pg_catalog_rows cat) = catalog_tables cat"
  by (induction cat) (auto simp: pg_catalog_rows_def catalog_tables_def pg_table_def get_prop_def)

lemma users_catalog_well_formed: "well_formed_catalog users_catalog"
  unfolding well_formed_catalog_def users_catalog_def
  by (simp add: json_parse_def is_ws_def is_digit_def parse_literal_def make_object_def)

text \<open>
  C7. For every well-formed catalogue: when the relational-A backend answers the
  catalogue query with the native arrays and the relational-B backend answers it with
  the comma-delimited concatenation of the JSON fragments, \<open>getTables\<close> on a connected
  adapter of either kind resolves with the same sequence of descriptors, one per table,
  holding the table name and the array of the column values. The relational-B path gets
  there by wrapping the concatenation in brackets and parsing it.
\<close>

theorem getTables_relational_paths_agree:
  assumes "well_formed_catalog cat"
    and "config_type sa = ''postgres''" and "postgresClient sa = Some c"
    and "pg_query d c pg_tables_query [] = Inr (pg_catalog_rows cat)"
    and "config_type sb = ''mysql''" and "mysqlConnection sb = Some m"
    and "mysql_query d m mysql_tables_query [] = Inr (mysql_catalog_rows cat)"
  shows "snd (getTables d sa) = Inr (catalog_tables cat)
         \<and> snd (getTables d sb) = Inr (catalog_tables cat)"
  using assms(2-7) map_result_mysql_catalog[OF assms(1)] map_pg_catalog[of cat]
  by (simp add: getTables_def pg_query_unchecked_def mysql_query_unchecked_def)

theorem getTables_relational_paths_agree_witness:
  \<open>well_formed_catalog users_catalog
   \<and> snd (getTables (catalog_driver users_catalog) (connected_service ''postgres''))
       = Inr [\<lparr>name = Some (JString ''users''),
               columns = Some (JArray
                 [JObject [(''name'', JString ''id''), (''type'', JString ''integer''),
                           (''nullable'', JBool False)],
                  JObject [(''name'', JString ''name''), (''type'', JString ''character varying''),
                           (''nullable'', JBool True)]])\<rparr>]
   \<and> snd (getTables (catalog_driver users_catalog) (connected_service ''mysql''))
       = snd (getTables (catalog_driver users_catalog) (connected_service ''postgres''))\<close>
  using getTables_relational_paths_agree
          [OF users_catalog_well_formed, of "connected_service ''postgres''"
              "PgClient example_config" "catalog_driver users_catalog"
              "connected_service ''mysql''" "MysqlConnection example_config"]
        users_catalog_well_formed
  by (simp add: connected_service_simps new_service_def catalog_driver_def catalog_tables_def
      users_catalog_def)

end
